theory Spec2Isabelle
  imports Main "HOL-Library.Sublist"
begin

section \<open>Python values, strings and exceptions\<close>

text \<open>
  The handler of \<^verbatim>\<open>yhandler.py\<close> formats URI paths, sends them through an injected
  session and checks the reply. The model keeps Python's values as datatypes, every exception
  as a value of \<open>error\<close>, and the session as an explicit state that records each request.
\<close>

typedecl pyfloat
  \<comment> \<open>Python floats inside a JSON document; no operation of the handler looks into them.\<close>

datatype jvalue =
    JNull
  | JBool bool
  | JInt int
  | JFloat pyfloat
  | JString string
  | JArray "jvalue list"
  | JObject "(string \<times> jvalue) list"
  \<comment> \<open>what \<^verbatim>\<open>response.json()\<close> returns: \<^verbatim>\<open>None\<close>, bool, int, float, str, list or dict
      (a dict as its items in insertion order)\<close>

datatype pyval = PStr string | PInt int
  \<comment> \<open>the arguments given to \<^verbatim>\<open>str.format\<close> and \<^verbatim>\<open>str()\<close>: str and int\<close>

datatype payload = Text string | Bytes string
  \<comment> \<open>the argument of an exception: a str (\<^verbatim>\<open>json.dumps\<close>) or bytes (\<^verbatim>\<open>response.content\<close>)\<close>

datatype error =
    RuntimeError payload
  | JSONDecodeError
  | TypeError
  | IndexError
  | ValueError

subsection \<open>\<^verbatim>\<open>str(int)\<close>\<close>

definition digit_char :: "nat \<Rightarrow> char" where
  "digit_char n = ''0123456789'' ! (n mod 10)"

fun str_nat :: "nat \<Rightarrow> string" where
  "str_nat n = (if n < 10 then [digit_char n] else str_nat (n div 10) @ [digit_char (n mod 10)])"

declare str_nat.simps [simp del]

definition str_int :: "int \<Rightarrow> string" where
  "str_int i = (if i < 0 then CHR ''-'' # str_nat (nat (- i)) else str_nat (nat i))"

fun py_str :: "pyval \<Rightarrow> string" where
  "py_str (PStr s) = s"
| "py_str (PInt i) = str_int i"

subsection \<open>\<^verbatim>\<open>str.format\<close>\<close>

text \<open>
  \<^verbatim>\<open>fmt.format(*args)\<close> for the format strings of the source: literal text, the
  auto-numbered field \<^verbatim>\<open>{}\<close> (replaced by \<^verbatim>\<open>str\<close> of the next argument, IndexError when
  the arguments are used up) and the escapes \<^verbatim>\<open>{{\<close> and \<^verbatim>\<open>}}\<close>. A lone brace is a
  ValueError. Named and numbered fields do not occur in the source; here they are a ValueError.
\<close>

fun format :: "string \<Rightarrow> pyval list \<Rightarrow> error + string" where
  "format [] args = Inr []"
| "format [c] args = (if c = CHR ''{'' \<or> c = CHR ''}'' then Inl ValueError else Inr [c])"
| "format (c # d # cs) args =
     (if c = CHR ''{'' then
        (if d = CHR ''}'' then
           (case args of
              [] \<Rightarrow> Inl IndexError
            | a # as \<Rightarrow> map_sum id (\<lambda>s. py_str a @ s) (format cs as))
         else if d = CHR ''{'' then map_sum id (\<lambda>s. CHR ''{'' # s) (format cs args)
         else Inl ValueError)
      else if c = CHR ''}'' then
        (if d = CHR ''}'' then map_sum id (\<lambda>s. CHR ''}'' # s) (format cs args)
         else Inl ValueError)
      else map_sum id (\<lambda>s. c # s) (format (d # cs) args))"

subsection \<open>\<^verbatim>\<open>str.find\<close>, slices, \<^verbatim>\<open>str.join\<close>, \<^verbatim>\<open>in\<close>\<close>

fun find_from :: "string \<Rightarrow> string \<Rightarrow> nat \<Rightarrow> int" where
  "find_from sub [] i = (if sub = [] then int i else - 1)"
| "find_from sub (c # cs) i = (if prefix sub (c # cs) then int i else find_from sub cs (Suc i))"

definition find :: "string \<Rightarrow> string \<Rightarrow> int" where
  \<comment> \<open>\<^verbatim>\<open>s.find(sub)\<close>: the lowest index where \<open>sub\<close> starts, \<open>-1\<close> when there is none\<close>
  "find s sub = find_from sub s 0"

definition slice :: "string \<Rightarrow> int \<Rightarrow> int \<Rightarrow> string" where
  \<comment> \<open>\<^verbatim>\<open>s[lo:hi]\<close>: a negative bound counts from the end, both bounds are clamped\<close>
  "slice s lo hi =
     (let n = int (length s);
          clamp = (\<lambda>k. if k < 0 then max 0 (n + k) else min n k);
          a = clamp lo; b = clamp hi
      in take (nat (b - a)) (drop (nat a) s))"

fun join :: "string \<Rightarrow> string list \<Rightarrow> string" where
  "join sep [] = []"
| "join sep [x] = x"
| "join sep (x # y # ys) = x @ sep @ join sep (y # ys)"

fun is_substring :: "string \<Rightarrow> string \<Rightarrow> bool" where
  "is_substring sub [] = (sub = [])"
| "is_substring sub (c # cs) = (if prefix sub (c # cs) then True else is_substring sub cs)"

fun py_in :: "string \<Rightarrow> jvalue \<Rightarrow> error + bool" where
  "py_in k (JObject kvs) = Inr (List.member (map fst kvs) k)"
| "py_in k (JArray xs) = Inr (List.member xs (JString k))"
| "py_in k (JString s) = Inr (is_substring k s)"
| "py_in k JNull = Inl TypeError"
| "py_in k (JBool b) = Inl TypeError"
| "py_in k (JInt i) = Inl TypeError"
| "py_in k (JFloat f) = Inl TypeError"

section \<open>The session collaborator\<close>

datatype http_method = GET | PUT | POST

record request =
  http_method :: http_method
  url :: string
  params :: "(string \<times> string) list"
  data :: "string option"
  headers :: "(string \<times> string) list"

record response =
  status_code :: int
  content :: string
  json :: "jvalue option"
  \<comment> \<open>the outcome of \<^verbatim>\<open>response.json()\<close>: \<open>None\<close> when the body does not decode\<close>

text \<open>
  \<^verbatim>\<open>self.sc.session\<close> is supplied by the caller. Its replies are not determined by the
  handler, so the model takes them as a function of the requests sent so far and the current
  request, and records every request in \<open>sent\<close>. The handler object has no other attribute,
  so the handler's state is this session.
\<close>

record session =
  reply :: "request list \<Rightarrow> request \<Rightarrow> response"
  sent :: "request list"

definition send :: "session \<Rightarrow> request \<Rightarrow> response \<times> session" where
  "send s rq = (reply s (sent s) rq, s\<lparr>sent := sent s @ [rq]\<rparr>)"

definition session_get :: "session \<Rightarrow> string \<Rightarrow> (string \<times> string) list \<Rightarrow> response \<times> session" where
  "session_get s u ps =
     send s \<lparr>http_method = GET, url = u, params = ps, data = None, headers = []\<rparr>"

definition session_put :: "session \<Rightarrow> string \<Rightarrow> string \<Rightarrow> (string \<times> string) list \<Rightarrow> response \<times> session" where
  "session_put s u d hs =
     send s \<lparr>http_method = PUT, url = u, params = [], data = Some d, headers = hs\<rparr>"

definition session_post :: "session \<Rightarrow> string \<Rightarrow> string \<Rightarrow> (string \<times> string) list \<Rightarrow> response \<times> session" where
  "session_post s u d hs =
     send s \<lparr>http_method = POST, url = u, params = [], data = Some d, headers = hs\<rparr>"

section \<open>YHandler\<close>

definition YAHOO_ENDPOINT :: string where
  "YAHOO_ENDPOINT = ''https://fantasysports.yahooapis.com/fantasy/v2''"

text \<open>
  \<^verbatim>\<open>json.dumps\<close> belongs to the standard library; the handler is modelled for any
  serialiser \<open>dumps\<close>.
\<close>

definition get :: "(jvalue \<Rightarrow> string) \<Rightarrow> session \<Rightarrow> string \<Rightarrow> (error + jvalue) \<times> session" where
  "get dumps s uri =
     (case format ''{}/{}'' [PStr YAHOO_ENDPOINT, PStr uri] of
        Inl e \<Rightarrow> (Inl e, s)
      | Inr u \<Rightarrow>
          (case session_get s u [(''format'', ''json'')] of
             (response, s') \<Rightarrow>
               (case json response of
                  None \<Rightarrow> (Inl JSONDecodeError, s')
                | Some jresp \<Rightarrow>
                    (case py_in ''error'' jresp of
                       Inl e \<Rightarrow> (Inl e, s')
                     | Inr True \<Rightarrow> (Inl (RuntimeError (Text (dumps jresp))), s')
                     | Inr False \<Rightarrow> (Inr jresp, s')))))"

definition put :: "session \<Rightarrow> string \<Rightarrow> string \<Rightarrow> (error + response) \<times> session" where
  "put s uri d =
     (let headers = [(''Content-Type'', ''application/xml'')] in
      case format ''{}/{}'' [PStr YAHOO_ENDPOINT, PStr uri] of
        Inl e \<Rightarrow> (Inl e, s)
      | Inr u \<Rightarrow>
          (case session_put s u d headers of
             (response, s') \<Rightarrow>
               if status_code response \<noteq> 200
               then (Inl (RuntimeError (Bytes (content response))), s')
               else (Inr response, s')))"

definition post :: "session \<Rightarrow> string \<Rightarrow> string \<Rightarrow> (error + response) \<times> session" where
  "post s uri d =
     (let headers = [(''Content-Type'', ''application/xml'')] in
      case format ''{}/{}'' [PStr YAHOO_ENDPOINT, PStr uri] of
        Inl e \<Rightarrow> (Inl e, s)
      | Inr u \<Rightarrow>
          (case session_post s u d headers of
             (response, s') \<Rightarrow>
               if status_code response \<noteq> 201
               then (Inl (RuntimeError (Bytes (content response))), s')
               else (Inr response, s')))"

definition get_teams_raw :: "(jvalue \<Rightarrow> string) \<Rightarrow> session \<Rightarrow> (error + jvalue) \<times> session" where
  "get_teams_raw dumps s = get dumps s ''users;use_login=1/games/teams''"

definition get_standings_raw :: "(jvalue \<Rightarrow> string) \<Rightarrow> session \<Rightarrow> string \<Rightarrow> (error + jvalue) \<times> session" where
  "get_standings_raw dumps s league_id =
     (case format ''league/{}/standings'' [PStr league_id] of
        Inl e \<Rightarrow> (Inl e, s)
      | Inr uri \<Rightarrow> get dumps s uri)"

definition get_settings_raw :: "(jvalue \<Rightarrow> string) \<Rightarrow> session \<Rightarrow> string \<Rightarrow> (error + jvalue) \<times> session" where
  "get_settings_raw dumps s league_id =
     (case format ''league/{}/settings'' [PStr league_id] of
        Inl e \<Rightarrow> (Inl e, s)
      | Inr uri \<Rightarrow> get dumps s uri)"

definition get_matchup_raw :: "(jvalue \<Rightarrow> string) \<Rightarrow> session \<Rightarrow> string \<Rightarrow> int \<Rightarrow> (error + jvalue) \<times> session" where
  "get_matchup_raw dumps s team_key week =
     (case format ''team/{}/matchups;weeks={}'' [PStr team_key, PInt week] of
        Inl e \<Rightarrow> (Inl e, s)
      | Inr uri \<Rightarrow> get dumps s uri)"

subsection \<open>\<^verbatim>\<open>datetime.date\<close> and \<^verbatim>\<open>strftime\<close>\<close>

record date =
  date_year :: nat
  date_month :: nat
  date_day :: nat

definition is_leap :: "nat \<Rightarrow> bool" where
  "is_leap y = (y mod 4 = 0 \<and> (y mod 100 \<noteq> 0 \<or> y mod 400 = 0))"

definition days_in_month :: "nat \<Rightarrow> nat \<Rightarrow> nat" where
  "days_in_month y m =
     (if m = 2 then (if is_leap y then 29 else 28)
      else if m = 4 \<or> m = 6 \<or> m = 9 \<or> m = 11 then 30 else 31)"

definition valid_date :: "date \<Rightarrow> bool" where
  \<comment> \<open>the values a \<^verbatim>\<open>datetime.date\<close> can hold (MINYEAR = 1, MAXYEAR = 9999)\<close>
  "valid_date d =
     (1 \<le> date_year d \<and> date_year d \<le> 9999 \<and> 1 \<le> date_month d \<and> date_month d \<le> 12 \<and>
      1 \<le> date_day d \<and> date_day d \<le> days_in_month (date_year d) (date_month d))"

definition zero_pad :: "nat \<Rightarrow> string \<Rightarrow> string" where
  "zero_pad w t = replicate (w - length t) (CHR ''0'') @ t"

definition directive :: "date \<Rightarrow> char \<Rightarrow> string" where
  \<comment> \<open>as CPython prints them on Linux (glibc): \<^verbatim>\<open>%Y\<close> is the year in decimal, not padded
      (\<^verbatim>\<open>999\<close> for the year 999); \<^verbatim>\<open>%m\<close> and \<^verbatim>\<open>%d\<close> are the month and the day of the
      month, zero-padded to two digits; \<^verbatim>\<open>%%\<close> is a percent sign. The source uses no other
      directive; any other one is left as it is written.\<close>
  "directive d k =
     (if k = CHR ''Y'' then str_nat (date_year d)
      else if k = CHR ''m'' then zero_pad 2 (str_nat (date_month d))
      else if k = CHR ''d'' then zero_pad 2 (str_nat (date_day d))
      else if k = CHR ''%'' then ''%''
      else [CHR ''%'', k])"

fun strftime :: "date \<Rightarrow> string \<Rightarrow> string" where
  "strftime d [] = []"
| "strftime d [c] = [c]"
| "strftime d (c # k # cs) =
     (if c = CHR ''%'' then directive d k @ strftime d cs else c # strftime d (k # cs))"

subsection \<open>The remaining requests\<close>

definition get_roster_raw ::
  "(jvalue \<Rightarrow> string) \<Rightarrow> session \<Rightarrow> string \<Rightarrow> int option \<Rightarrow> date option \<Rightarrow> (error + jvalue) \<times> session" where
  "get_roster_raw dumps s team_key week day =
     (case (case week of
              Some w \<Rightarrow> format '';week={}'' [PInt w]
            | None \<Rightarrow>
                (case day of
                   Some d \<Rightarrow> format '';date={}'' [PStr (strftime d ''%Y-%m-%d'')]
                 | None \<Rightarrow> Inr [])) of
        Inl e \<Rightarrow> (Inl e, s)
      | Inr param \<Rightarrow>
          (case format ''team/{}/roster{}'' [PStr team_key, PStr param] of
             Inl e \<Rightarrow> (Inl e, s)
           | Inr uri \<Rightarrow> get dumps s uri))"

definition get_scoreboard_raw ::
  "(jvalue \<Rightarrow> string) \<Rightarrow> session \<Rightarrow> string \<Rightarrow> int option \<Rightarrow> (error + jvalue) \<times> session" where
  "get_scoreboard_raw dumps s league_id week =
     (case (case week of
              Some w \<Rightarrow> format '';week={}'' [PInt w]
            | None \<Rightarrow> Inr []) of
        Inl e \<Rightarrow> (Inl e, s)
      | Inr week_uri \<Rightarrow>
          (case format ''league/{}/scoreboard{}'' [PStr league_id, PStr week_uri] of
             Inl e \<Rightarrow> (Inl e, s)
           | Inr uri \<Rightarrow> get dumps s uri))"

definition get_players_raw ::
  "(jvalue \<Rightarrow> string) \<Rightarrow> session \<Rightarrow> string \<Rightarrow> int \<Rightarrow> string \<Rightarrow> string option \<Rightarrow> (error + jvalue) \<times> session" where
  "get_players_raw dumps s league_id start status position =
     (case (case position of
              None \<Rightarrow> Inr []
            | Some p \<Rightarrow> format '';position={}'' [PStr p]) of
        Inl e \<Rightarrow> (Inl e, s)
      | Inr pos_parm \<Rightarrow>
          (case format ''league/{}/players;start={};count=25;status={}{}/percent_owned''
                  [PStr league_id, PInt start, PStr status, PStr pos_parm] of
             Inl e \<Rightarrow> (Inl e, s)
           | Inr uri \<Rightarrow> get dumps s uri))"

definition get_player_raw ::
  "(jvalue \<Rightarrow> string) \<Rightarrow> session \<Rightarrow> string \<Rightarrow> string option \<Rightarrow> (error + jvalue) \<times> session" where
  "get_player_raw dumps s league_id player_name =
     (case (case player_name of
              Some n \<Rightarrow> format ''players;search={}/stats'' [PStr n]
            | None \<Rightarrow> Inr []) of
        Inl e \<Rightarrow> (Inl e, s)
      | Inr player_stat_uri \<Rightarrow>
          (case format ''league/{}/{}'' [PStr league_id, PStr player_stat_uri] of
             Inl e \<Rightarrow> (Inl e, s)
           | Inr uri \<Rightarrow> get dumps s uri))"

definition get_percent_owned_raw ::
  "(jvalue \<Rightarrow> string) \<Rightarrow> session \<Rightarrow> string \<Rightarrow> pyval list \<Rightarrow> (error + jvalue) \<times> session" where
  "get_percent_owned_raw dumps s league_id player_ids =
     (let lg_pref = slice league_id 0 (find league_id ''.'');
          joined_ids = join '','' (map (\<lambda>i. lg_pref @ ''.p.'' @ py_str i) player_ids)
      in case format ''league/{}/players;player_keys={}/percent_owned''
                [PStr league_id, PStr joined_ids] of
           Inl e \<Rightarrow> (Inl e, s)
         | Inr uri \<Rightarrow> get dumps s uri)"

definition put_roster :: "session \<Rightarrow> string \<Rightarrow> string \<Rightarrow> (error + response) \<times> session" where
  "put_roster s team_key xml =
     (case format ''team/{}/roster'' [PStr team_key] of
        Inl e \<Rightarrow> (Inl e, s)
      | Inr uri \<Rightarrow> put s uri xml)"

definition post_transactions :: "session \<Rightarrow> string \<Rightarrow> string \<Rightarrow> (error + response) \<times> session" where
  "post_transactions s league_id xml =
     (case format ''league/{}/transactions'' [PStr league_id] of
        Inl e \<Rightarrow> (Inl e, s)
      | Inr uri \<Rightarrow> post s uri xml)"

section \<open>The interface as a whole\<close>

text \<open>Every method of the class with its arguments, and what a call returns.\<close>

datatype operation =
    Get string
  | Put string string
  | Post string string
  | Get_teams_raw
  | Get_standings_raw string
  | Get_settings_raw string
  | Get_matchup_raw string int
  | Get_roster_raw string "int option" "date option"
  | Get_scoreboard_raw string "int option"
  | Get_players_raw string int string "string option"
  | Get_player_raw string "string option"
  | Get_percent_owned_raw string "pyval list"
  | Put_roster string string
  | Post_transactions string string

datatype result = Json jvalue | Response response

definition as_json :: "(error + jvalue) \<times> session \<Rightarrow> (error + result) \<times> session" where
  "as_json r = (map_sum id Json (fst r), snd r)"

definition as_response :: "(error + response) \<times> session \<Rightarrow> (error + result) \<times> session" where
  "as_response r = (map_sum id Response (fst r), snd r)"

fun call :: "(jvalue \<Rightarrow> string) \<Rightarrow> session \<Rightarrow> operation \<Rightarrow> (error + result) \<times> session" where
  "call dumps s (Get uri) = as_json (get dumps s uri)"
| "call dumps s (Put uri d) = as_response (put s uri d)"
| "call dumps s (Post uri d) = as_response (post s uri d)"
| "call dumps s Get_teams_raw = as_json (get_teams_raw dumps s)"
| "call dumps s (Get_standings_raw league_id) = as_json (get_standings_raw dumps s league_id)"
| "call dumps s (Get_settings_raw league_id) = as_json (get_settings_raw dumps s league_id)"
| "call dumps s (Get_matchup_raw team_key week) = as_json (get_matchup_raw dumps s team_key week)"
| "call dumps s (Get_roster_raw team_key week day) =
     as_json (get_roster_raw dumps s team_key week day)"
| "call dumps s (Get_scoreboard_raw league_id week) =
     as_json (get_scoreboard_raw dumps s league_id week)"
| "call dumps s (Get_players_raw league_id start status position) =
     as_json (get_players_raw dumps s league_id start status position)"
| "call dumps s (Get_player_raw league_id player_name) =
     as_json (get_player_raw dumps s league_id player_name)"
| "call dumps s (Get_percent_owned_raw league_id player_ids) =
     as_json (get_percent_owned_raw dumps s league_id player_ids)"
| "call dumps s (Put_roster team_key xml) = as_response (put_roster s team_key xml)"
| "call dumps s (Post_transactions league_id xml) = as_response (post_transactions s league_id xml)"

fun verb :: "operation \<Rightarrow> http_method" where
  \<comment> \<open>which of \<open>get\<close>, \<open>put\<close> and \<open>post\<close> the method is or delegates to\<close>
  "verb (Put uri d) = PUT"
| "verb (Put_roster team_key xml) = PUT"
| "verb (Post uri d) = POST"
| "verb (Post_transactions league_id xml) = POST"
| "verb opn = GET"

section \<open>What the statements below compare the code with\<close>

definition has_key :: "string \<Rightarrow> jvalue \<Rightarrow> bool" where
  \<comment> \<open>the document is a JSON object with the key \<open>k\<close>\<close>
  "has_key k j = (case j of JObject kvs \<Rightarrow> k \<in> fst ` set kvs | _ \<Rightarrow> False)"

definition prefix_before_dot :: "string \<Rightarrow> string" where
  \<comment> \<open>the part of a string before its first \<^verbatim>\<open>.\<close>\<close>
  "prefix_before_dot t = takeWhile (\<lambda>c. c \<noteq> CHR ''.'') t"

definition iso_date :: "date \<Rightarrow> string" where
  \<comment> \<open>\<^verbatim>\<open>YYYY-MM-DD\<close>: four digits of the year, two of the month, two of the day\<close>
  "iso_date d =
     [digit_char (date_year d div 1000), digit_char (date_year d div 100), digit_char (date_year d div 10),
      digit_char (date_year d), CHR ''-'',
      digit_char (date_month d div 10), digit_char (date_month d), CHR ''-'',
      digit_char (date_day d div 10), digit_char (date_day d)]"

definition get_request :: "string \<Rightarrow> request" where
  "get_request uri =
     \<lparr>http_method = GET, url = YAHOO_ENDPOINT @ ''/'' @ uri, params = [(''format'', ''json'')],
      data = None, headers = []\<rparr>"

definition put_request :: "string \<Rightarrow> string \<Rightarrow> request" where
  "put_request uri d =
     \<lparr>http_method = PUT, url = YAHOO_ENDPOINT @ ''/'' @ uri, params = [],
      data = Some d, headers = [(''Content-Type'', ''application/xml'')]\<rparr>"

definition post_request :: "string \<Rightarrow> string \<Rightarrow> request" where
  "post_request uri d =
     \<lparr>http_method = POST, url = YAHOO_ENDPOINT @ ''/'' @ uri, params = [],
      data = Some d, headers = [(''Content-Type'', ''application/xml'')]\<rparr>"

subsection \<open>Concrete sessions for the examples\<close>

definition dumps_fixed :: "jvalue \<Rightarrow> string" where
  \<comment> \<open>the statements hold for any serialiser; the examples run with this one\<close>
  "dumps_fixed j = ''<json>''"

definition replying :: "response \<Rightarrow> session" where
  \<comment> \<open>a fresh session whose server answers every request with \<open>r\<close>\<close>
  "replying r = \<lparr>reply = (\<lambda>hist rq. r), sent = []\<rparr>"

section \<open>Formatting lemmas\<close>

lemma format_endpoint:
  "format ''{}/{}'' [PStr a, PStr b] = Inr (a @ ''/'' @ b)"
  by simp

lemma format_standings:
  "format ''league/{}/standings'' [PStr a] = Inr (''league/'' @ a @ ''/standings'')"
  by simp

lemma format_settings:
  "format ''league/{}/settings'' [PStr a] = Inr (''league/'' @ a @ ''/settings'')"
  by simp

lemma format_matchups:
  "format ''team/{}/matchups;weeks={}'' [PStr a, PInt w]
     = Inr (''team/'' @ a @ ''/matchups;weeks='' @ str_int w)"
  by simp

lemma format_week: "format '';week={}'' [PInt w] = Inr ('';week='' @ str_int w)"
  by simp

lemma format_date: "format '';date={}'' [PStr t] = Inr ('';date='' @ t)"
  by simp

lemma format_roster:
  "format ''team/{}/roster{}'' [PStr a, PStr b] = Inr (''team/'' @ a @ ''/roster'' @ b)"
  by simp

lemma format_scoreboard:
  "format ''league/{}/scoreboard{}'' [PStr a, PStr b] = Inr (''league/'' @ a @ ''/scoreboard'' @ b)"
  by simp

lemma format_position: "format '';position={}'' [PStr p] = Inr ('';position='' @ p)"
  by simp

lemma format_players:
  "format ''league/{}/players;start={};count=25;status={}{}/percent_owned''
       [PStr a, PInt n, PStr st, PStr pp]
     = Inr (''league/'' @ a @ ''/players;start='' @ str_int n @ '';count=25;status='' @ st @ pp
            @ ''/percent_owned'')"
  by simp

lemma format_search:
  "format ''players;search={}/stats'' [PStr n] = Inr (''players;search='' @ n @ ''/stats'')"
  by simp

lemma format_league: "format ''league/{}/{}'' [PStr a, PStr b] = Inr (''league/'' @ a @ ''/'' @ b)"
  by simp

lemma format_player_keys:
  "format ''league/{}/players;player_keys={}/percent_owned'' [PStr a, PStr b]
     = Inr (''league/'' @ a @ ''/players;player_keys='' @ b @ ''/percent_owned'')"
  by simp

lemma format_put_roster: "format ''team/{}/roster'' [PStr a] = Inr (''team/'' @ a @ ''/roster'')"
  by simp

lemma format_transactions:
  "format ''league/{}/transactions'' [PStr a] = Inr (''league/'' @ a @ ''/transactions'')"
  by simp

lemma get_unfold:
  "get dumps s uri =
     (case json (reply s (sent s) (get_request uri)) of
        None \<Rightarrow> Inl JSONDecodeError
      | Some jresp \<Rightarrow>
          (case py_in ''error'' jresp of
             Inl e \<Rightarrow> Inl e
           | Inr b \<Rightarrow> if b then Inl (RuntimeError (Text (dumps jresp))) else Inr jresp),
      s\<lparr>sent := sent s @ [get_request uri]\<rparr>)"
  by (simp add: get_def format_endpoint session_get_def send_def get_request_def
      split: option.split sum.split bool.split)

lemma put_unfold:
  "put s uri d =
     (if status_code (reply s (sent s) (put_request uri d)) = 200
      then Inr (reply s (sent s) (put_request uri d))
      else Inl (RuntimeError (Bytes (content (reply s (sent s) (put_request uri d))))),
      s\<lparr>sent := sent s @ [put_request uri d]\<rparr>)"
  by (simp add: put_def Let_def format_endpoint session_put_def send_def put_request_def)

lemma post_unfold:
  "post s uri d =
     (if status_code (reply s (sent s) (post_request uri d)) = 201
      then Inr (reply s (sent s) (post_request uri d))
      else Inl (RuntimeError (Bytes (content (reply s (sent s) (post_request uri d))))),
      s\<lparr>sent := sent s @ [post_request uri d]\<rparr>)"
  by (simp add: post_def Let_def format_endpoint session_post_def send_def post_request_def)


subsection \<open>Paths\<close>

lemma get_teams_raw_path:
  "get_teams_raw dumps s = get dumps s ''users;use_login=1/games/teams''"
  by (simp add: get_teams_raw_def)

lemma get_standings_raw_path:
  "get_standings_raw dumps s league_id = get dumps s (''league/'' @ league_id @ ''/standings'')"
  by (simp add: get_standings_raw_def)

lemma get_settings_raw_path:
  "get_settings_raw dumps s league_id = get dumps s (''league/'' @ league_id @ ''/settings'')"
  by (simp add: get_settings_raw_def)

lemma get_matchup_raw_path:
  "get_matchup_raw dumps s team_key week
     = get dumps s (''team/'' @ team_key @ ''/matchups;weeks='' @ str_int week)"
  by (simp add: get_matchup_raw_def)

lemma roster_week_path:
  "get_roster_raw dumps s team_key (Some w) dy
     = get dumps s (''team/'' @ team_key @ ''/roster;week='' @ str_int w)"
  by (simp add: get_roster_raw_def)

lemma roster_day_path:
  "get_roster_raw dumps s team_key None (Some d)
     = get dumps s (''team/'' @ team_key @ ''/roster;date='' @ strftime d ''%Y-%m-%d'')"
  by (simp add: get_roster_raw_def del: strftime.simps)

lemma roster_plain_path:
  "get_roster_raw dumps s team_key None None = get dumps s (''team/'' @ team_key @ ''/roster'')"
  by (simp add: get_roster_raw_def)

lemma scoreboard_path:
  "get_scoreboard_raw dumps s league_id week
     = get dumps s (''league/'' @ league_id @ ''/scoreboard''
         @ (case week of None \<Rightarrow> [] | Some w \<Rightarrow> '';week='' @ str_int w))"
  by (simp add: get_scoreboard_raw_def split: option.split)

lemma players_path:
  "get_players_raw dumps s league_id start status position
     = get dumps s (''league/'' @ league_id @ ''/players;start='' @ str_int start
         @ '';count=25;status='' @ status
         @ (case position of None \<Rightarrow> [] | Some p \<Rightarrow> '';position='' @ p)
         @ ''/percent_owned'')"
  by (simp add: get_players_raw_def split: option.split)

lemma player_path:
  "get_player_raw dumps s league_id player_name
     = get dumps s (''league/'' @ league_id @ ''/''
         @ (case player_name of None \<Rightarrow> [] | Some n \<Rightarrow> ''players;search='' @ n @ ''/stats''))"
  by (simp add: get_player_raw_def split: option.split)

lemma percent_owned_path:
  "get_percent_owned_raw dumps s league_id player_ids
     = get dumps s (''league/'' @ league_id @ ''/players;player_keys=''
         @ join '','' (map (\<lambda>i. slice league_id 0 (find league_id ''.'') @ ''.p.'' @ py_str i) player_ids)
         @ ''/percent_owned'')"
  by (simp add: get_percent_owned_raw_def Let_def)

lemma put_roster_path: "put_roster s team_key xml = put s (''team/'' @ team_key @ ''/roster'') xml"
  by (simp add: put_roster_def)

lemma post_transactions_path:
  "post_transactions s league_id xml = post s (''league/'' @ league_id @ ''/transactions'') xml"
  by (simp add: post_transactions_def)

subsection \<open>Decimal digits and dates\<close>

lemma digit_char_mod [simp]: "digit_char (n mod 10) = digit_char n"
  by (simp add: digit_char_def)

lemma digit_char_0 [simp]: "digit_char 0 = CHR ''0''"
  by (simp add: digit_char_def)

lemma str_nat_small: "n < 10 \<Longrightarrow> str_nat n = [digit_char n]"
  by (subst str_nat.simps) simp

lemma str_nat_step: "10 \<le> n \<Longrightarrow> str_nat n = str_nat (n div 10) @ [digit_char n]"
  by (subst str_nat.simps) simp

lemma replicate_2: "replicate 2 c = [c, c]"
  by (simp add: numeral_2_eq_2)

lemma zero_pad_2:
  assumes "n < 100"
  shows "zero_pad 2 (str_nat n) = [digit_char (n div 10), digit_char n]"
proof (cases "n < 10")
  case True
  then show ?thesis by (simp add: str_nat_small zero_pad_def)
next
  case False
  with assms have "n div 10 < 10" by simp
  with False show ?thesis by (simp add: str_nat_step str_nat_small zero_pad_def)
qed

lemma str_nat_3:
  assumes "100 \<le> n" "n < 1000"
  shows "str_nat n = [digit_char (n div 100), digit_char (n div 10), digit_char n]"
proof -
  have "10 \<le> n div 10" "n div 10 div 10 < 10" "n div 10 div 10 = n div 100"
    using assms by (simp_all add: div_mult2_eq)
  with assms show ?thesis by (simp add: str_nat_step str_nat_small)
qed

lemma str_nat_4:
  assumes "1000 \<le> n" "n < 10000"
  shows "str_nat n =
    [digit_char (n div 1000), digit_char (n div 100), digit_char (n div 10), digit_char n]"
proof -
  have "100 \<le> n div 10" "n div 10 < 1000" "n div 10 div 100 = n div 1000"
    "n div 10 div 10 = n div 100"
    using assms by (simp_all add: div_mult2_eq)
  with assms show ?thesis by (simp add: str_nat_step [of n] str_nat_3)
qed

lemma days_in_month_le: "days_in_month y m \<le> 31"
  by (simp add: days_in_month_def)

lemma strftime_ymd:
  "strftime d ''%Y-%m-%d'' =
     str_nat (date_year d) @ ''-'' @ zero_pad 2 (str_nat (date_month d)) @ ''-''
       @ zero_pad 2 (str_nat (date_day d))"
  by (simp add: directive_def)

lemma strftime_iso:
  assumes "valid_date d" and "1000 \<le> date_year d"
  shows "strftime d ''%Y-%m-%d'' = iso_date d"
proof -
  from assms have "date_year d < 10000" "date_month d < 100"
    by (simp_all add: valid_date_def)
  moreover from assms days_in_month_le [of "date_year d" "date_month d"]
  have "date_day d < 100" by (simp add: valid_date_def)
  ultimately show ?thesis
    using assms(2) by (simp add: strftime_ymd iso_date_def str_nat_4 zero_pad_2 del: strftime.simps)
qed

subsection \<open>The league prefix\<close>

lemma find_from_dot:
  "CHR ''.'' \<in> set t \<Longrightarrow>
     find_from ''.'' t i = int i + int (length (takeWhile (\<lambda>c. c \<noteq> CHR ''.'') t))"
  by (induction t arbitrary: i) auto

lemma find_from_no_dot: "CHR ''.'' \<notin> set t \<Longrightarrow> find_from ''.'' t i = - 1"
  by (induction t arbitrary: i) auto

lemma slice_take: "0 \<le> k \<Longrightarrow> k \<le> int (length t) \<Longrightarrow> slice t 0 k = take (nat k) t"
  by (simp add: slice_def Let_def min_def)

lemma lg_pref_dot:
  assumes "CHR ''.'' \<in> set t"
  shows "slice t 0 (find t ''.'') = prefix_before_dot t"
proof -
  let ?p = "takeWhile (\<lambda>c. c \<noteq> CHR ''.'') t"
  have "find t ''.'' = int (length ?p)"
    using assms by (simp add: find_def find_from_dot)
  moreover have "length ?p \<le> length t" by (rule length_takeWhile_le)
  ultimately have "slice t 0 (find t ''.'') = take (length ?p) t"
    by (simp add: slice_take)
  also have "\<dots> = ?p" by (rule takeWhile_eq_take [symmetric])
  finally show ?thesis by (simp add: prefix_before_dot_def)
qed

lemma lg_pref_no_dot:
  assumes "CHR ''.'' \<notin> set t"
  shows "slice t 0 (find t ''.'') = butlast t"
proof -
  have "nat (max 0 (int (length t) - 1)) = length t - 1" by arith
  with assms show ?thesis
    by (simp add: find_def find_from_no_dot slice_def Let_def butlast_conv_take)
qed


subsection \<open>Every call is one request\<close>

lemma has_key_member: "has_key k (JObject kvs) = List.member (map fst kvs) k"
  by (simp add: has_key_def)

lemma roster_path:
  "get_roster_raw dumps s team_key week dy
     = get dumps s (''team/'' @ team_key @ ''/roster''
         @ (case week of
              Some w \<Rightarrow> '';week='' @ str_int w
            | None \<Rightarrow>
                (case dy of
                   Some d \<Rightarrow> '';date='' @ strftime d ''%Y-%m-%d''
                 | None \<Rightarrow> [])))"
  by (simp add: get_roster_raw_def split: option.split del: strftime.simps)

lemma call_get:
  assumes "verb opn = GET"
  shows "\<exists>uri. call dumps s opn = as_json (get dumps s uri)"
  using assms
  by (cases opn)
    (auto simp: get_teams_raw_path get_standings_raw_path get_settings_raw_path
      get_matchup_raw_path roster_path scoreboard_path players_path player_path
      percent_owned_path simp del: strftime.simps)

lemma call_put:
  assumes "verb opn = PUT"
  shows "\<exists>uri d. call dumps s opn = as_response (put s uri d)"
  using assms by (cases opn) (auto simp: put_roster_path)

lemma call_post:
  assumes "verb opn = POST"
  shows "\<exists>uri d. call dumps s opn = as_response (post s uri d)"
  using assms by (cases opn) (auto simp: post_transactions_path)

lemma get_result:
  "fst (as_json (get dumps s uri)) =
     (case json (reply s (sent s) (get_request uri)) of
        None \<Rightarrow> Inl JSONDecodeError
      | Some j \<Rightarrow>
          (case py_in ''error'' j of
             Inl t \<Rightarrow> Inl TypeError
           | Inr b \<Rightarrow> if b then Inl (RuntimeError (Text (dumps j))) else Inr (Json j)))"
proof (cases "json (reply s (sent s) (get_request uri))")
  case None
  then show ?thesis by (simp add: as_json_def get_unfold)
next
  case (Some j)
  then show ?thesis by (cases j) (simp_all add: as_json_def get_unfold)
qed

section \<open>GET: the reply check\<close>

text \<open>
  C1 (as amended). For every URI and every session whose reply to the request has a body that
  parses to a JSON object, \<open>get\<close> raises the RuntimeError carrying the serialised body if
  and only if the object has the key \<open>error\<close>, whatever the status code, and returns the
  parsed object unmodified when the key is absent.
\<close>

theorem get_object_error_key:
  assumes "json (reply s (sent s) (get_request uri)) = Some (JObject kvs)"
  shows "(fst (get dumps s uri) = Inl (RuntimeError (Text (dumps (JObject kvs))))
            \<longleftrightarrow> has_key ''error'' (JObject kvs))
       \<and> (isl (fst (get dumps s uri)) \<longleftrightarrow> has_key ''error'' (JObject kvs))
       \<and> (\<not> has_key ''error'' (JObject kvs) \<longrightarrow> fst (get dumps s uri) = Inr (JObject kvs))"
  using assms by (simp add: get_unfold has_key_member)

theorem get_object_error_key_witness:
  "json (reply (replying \<lparr>status_code = 200, content = ''{\"error\": {}}'',
                          json = Some (JObject [(''error'', JObject [])])\<rparr>)
          (sent (replying \<lparr>status_code = 200, content = ''{\"error\": {}}'',
                          json = Some (JObject [(''error'', JObject [])])\<rparr>))
          (get_request ''league/1/standings''))
     = Some (JObject [(''error'', JObject [])])
   \<and> fst (get dumps_fixed
            (replying \<lparr>status_code = 200, content = ''{\"error\": {}}'',
                       json = Some (JObject [(''error'', JObject [])])\<rparr>)
            ''league/1/standings'')
       = Inl (RuntimeError (Text ''<json>''))"
proof -
  let ?s = "replying \<lparr>status_code = 200, content = ''{\"error\": {}}'',
                      json = Some (JObject [(''error'', JObject [])])\<rparr>"
  have h: "json (reply ?s (sent ?s) (get_request ''league/1/standings''))
             = Some (JObject [(''error'', JObject [])])"
    by (simp add: replying_def)
  have k: "has_key ''error'' (JObject [(''error'', JObject [])])"
    by (simp add: has_key_def)
  from get_object_error_key [OF h, of dumps_fixed] k h show ?thesis
    by (simp add: dumps_fixed_def)
qed

text \<open>
  C1 as stated fails: a body that parses to the JSON array \<open>["error"]\<close> has no key at all,
  and \<open>get\<close> raises the RuntimeError all the same, because \<^verbatim>\<open>"error" in jresp\<close> is
  list membership there.
\<close>

theorem get_array_counterexample:
  "fst (get dumps_fixed
          (replying \<lparr>status_code = 200, content = ''[\"error\"]'',
                     json = Some (JArray [JString ''error''])\<rparr>)
          ''league/1/standings'')
     = Inl (RuntimeError (Text ''<json>''))
   \<and> \<not> has_key ''error'' (JArray [JString ''error''])"
  by (simp add: get_unfold replying_def has_key_def dumps_fixed_def)

section \<open>PUT and POST: the status check\<close>

text \<open>
  C2. \<open>put\<close> succeeds exactly when the status code of the reply is 200 and \<open>post\<close>
  exactly when it is 201; on success the reply itself is returned, otherwise the RuntimeError
  carries the reply's raw body. In particular a PUT answered with 201 fails.
\<close>

theorem put_post_status:
  "fst (put s uri d) =
     (if status_code (reply s (sent s) (put_request uri d)) = 200
      then Inr (reply s (sent s) (put_request uri d))
      else Inl (RuntimeError (Bytes (content (reply s (sent s) (put_request uri d))))))
   \<and> fst (post s uri d) =
     (if status_code (reply s (sent s) (post_request uri d)) = 201
      then Inr (reply s (sent s) (post_request uri d))
      else Inl (RuntimeError (Bytes (content (reply s (sent s) (post_request uri d))))))
   \<and> (status_code (reply s (sent s) (put_request uri d)) = 201 \<longrightarrow>
        fst (put s uri d)
          = Inl (RuntimeError (Bytes (content (reply s (sent s) (put_request uri d))))))"
  by (simp add: put_unfold post_unfold)

theorem put_post_status_witness:
  "status_code (reply (replying \<lparr>status_code = 201, content = ''<ok/>'', json = None\<rparr>)
                 (sent (replying \<lparr>status_code = 201, content = ''<ok/>'', json = None\<rparr>))
                 (put_request ''team/T1/roster'' ''<x/>'')) = 201
   \<and> fst (put (replying \<lparr>status_code = 201, content = ''<ok/>'', json = None\<rparr>)
            ''team/T1/roster'' ''<x/>'')
       = Inl (RuntimeError (Bytes ''<ok/>''))
   \<and> fst (post (replying \<lparr>status_code = 201, content = ''<ok/>'', json = None\<rparr>)
            ''team/T1/roster'' ''<x/>'')
       = Inr \<lparr>status_code = 201, content = ''<ok/>'', json = None\<rparr>"
  using put_post_status [of "replying \<lparr>status_code = 201, content = ''<ok/>'', json = None\<rparr>"
      "''team/T1/roster''" "''<x/>''"]
  by (simp add: replying_def)

section \<open>Requests sent\<close>

text \<open>
  C6. Every \<open>get\<close> sends exactly one request: a GET to the fixed HTTPS endpoint of the Yahoo
  Fantasy Sports v2 API, a slash and the given path, with the query parameter
  \<open>format=json\<close>.
\<close>

theorem get_request_sent:
  "snd (get dumps s uri) =
     s\<lparr>sent := sent s @
        [\<lparr>http_method = GET,
          url = ''https://fantasysports.yahooapis.com/fantasy/v2'' @ ''/'' @ uri,
          params = [(''format'', ''json'')], data = None, headers = []\<rparr>]\<rparr>"
  by (simp add: get_unfold get_request_def YAHOO_ENDPOINT_def)

theorem get_request_sent_witness:
  "sent (snd (get dumps_fixed (replying \<lparr>status_code = 200, content = ''{}'', json = Some (JObject [])\<rparr>)
                ''league/1/standings''))
     = [\<lparr>http_method = GET,
         url = ''https://fantasysports.yahooapis.com/fantasy/v2/league/1/standings'',
         params = [(''format'', ''json'')], data = None, headers = []\<rparr>]"
  using get_request_sent [of dumps_fixed
      "replying \<lparr>status_code = 200, content = ''{}'', json = Some (JObject [])\<rparr>"
      "''league/1/standings''"]
  by (simp add: replying_def)

text \<open>
  C8. \<open>put\<close> and \<open>post\<close> each send exactly one request, with the header
  \<open>Content-Type: application/xml\<close> and the caller's payload as the body, unchanged.
\<close>

theorem put_post_request_sent:
  "snd (put s uri d) =
     s\<lparr>sent := sent s @
        [\<lparr>http_method = PUT, url = YAHOO_ENDPOINT @ ''/'' @ uri, params = [],
          data = Some d, headers = [(''Content-Type'', ''application/xml'')]\<rparr>]\<rparr>
   \<and> snd (post s uri d) =
     s\<lparr>sent := sent s @
        [\<lparr>http_method = POST, url = YAHOO_ENDPOINT @ ''/'' @ uri, params = [],
          data = Some d, headers = [(''Content-Type'', ''application/xml'')]\<rparr>]\<rparr>"
  by (simp add: put_unfold post_unfold put_request_def post_request_def)

theorem put_post_request_sent_witness:
  "map data (sent (snd (put (replying \<lparr>status_code = 200, content = [], json = None\<rparr>)
                         ''team/T1/roster'' ''<fantasy_content/>'')))
     = [Some ''<fantasy_content/>'']
   \<and> map headers (sent (snd (post (replying \<lparr>status_code = 201, content = [], json = None\<rparr>)
                         ''league/L1/transactions'' ''<fantasy_content/>'')))
     = [[(''Content-Type'', ''application/xml'')]]"
  using put_post_request_sent [of "replying \<lparr>status_code = 200, content = [], json = None\<rparr>"
      "''team/T1/roster''" "''<fantasy_content/>''"]
    put_post_request_sent [of "replying \<lparr>status_code = 201, content = [], json = None\<rparr>"
      "''league/L1/transactions''" "''<fantasy_content/>''"]
  by (simp add: replying_def)


section \<open>Paths of the roster, player and percent-owned requests\<close>

text \<open>
  C4 (as amended). \<open>get_roster_raw\<close> requests \<^verbatim>\<open>team/{team_key}/roster;week={week}\<close> when
  a week is given, \<^verbatim>\<open>team/{team_key}/roster;date=YYYY-MM-DD\<close> when only a day is given and
  its year is at least 1000, and \<^verbatim>\<open>team/{team_key}/roster\<close> with nothing after it when
  neither is given.
\<close>

theorem get_roster_raw_path:
  "get_roster_raw dumps s team_key (Some w) dy
     = get dumps s (''team/'' @ team_key @ ''/roster;week='' @ str_int w)
   \<and> (valid_date d \<and> 1000 \<le> date_year d \<longrightarrow>
        get_roster_raw dumps s team_key None (Some d)
          = get dumps s (''team/'' @ team_key @ ''/roster;date='' @ iso_date d))
   \<and> get_roster_raw dumps s team_key None None = get dumps s (''team/'' @ team_key @ ''/roster'')"
  by (simp add: roster_week_path roster_day_path roster_plain_path strftime_iso
      del: strftime.simps)

theorem get_roster_raw_path_witness:
  "valid_date \<lparr>date_year = 2019, date_month = 4, date_day = 7\<rparr>
   \<and> 1000 \<le> date_year \<lparr>date_year = 2019, date_month = 4, date_day = 7\<rparr>
   \<and> get_roster_raw dumps_fixed (replying \<lparr>status_code = 200, content = [], json = None\<rparr>)
        ''T1'' None (Some \<lparr>date_year = 2019, date_month = 4, date_day = 7\<rparr>)
       = get dumps_fixed (replying \<lparr>status_code = 200, content = [], json = None\<rparr>)
           ''team/T1/roster;date=2019-04-07''
   \<and> get_roster_raw dumps_fixed (replying \<lparr>status_code = 200, content = [], json = None\<rparr>)
        ''T1'' (Some 3) None
       = get dumps_fixed (replying \<lparr>status_code = 200, content = [], json = None\<rparr>)
           ''team/T1/roster;week=3''"
proof -
  have v: "valid_date \<lparr>date_year = 2019, date_month = 4, date_day = 7\<rparr>"
    by (simp add: valid_date_def days_in_month_def)
  have i: "iso_date \<lparr>date_year = 2019, date_month = 4, date_day = 7\<rparr> = ''2019-04-07''"
    by (simp add: iso_date_def digit_char_def)
  have w: "str_int 3 = ''3''"
    by (simp add: str_int_def str_nat_small digit_char_def)
  from get_roster_raw_path [of dumps_fixed
      "replying \<lparr>status_code = 200, content = [], json = None\<rparr>"
      "''T1''" 3 None "\<lparr>date_year = 2019, date_month = 4, date_day = 7\<rparr>"] v i w
  show ?thesis by simp
qed

text \<open>
  C4 as stated fails for a day before the year 1000: \<^verbatim>\<open>%Y\<close> prints the year without
  padding, so for 31 December 999 the request carries \<^verbatim>\<open>;date=999-12-31\<close>, which is not
  the ten characters \<^verbatim>\<open>0999-12-31\<close> of the ISO date.
\<close>

theorem get_roster_raw_counterexample:
  "map url (sent (snd (get_roster_raw dumps_fixed
        (replying \<lparr>status_code = 200, content = [], json = None\<rparr>)
        ''T1'' None (Some \<lparr>date_year = 999, date_month = 12, date_day = 31\<rparr>))))
     = [''https://fantasysports.yahooapis.com/fantasy/v2/team/T1/roster;date=999-12-31'']
   \<and> valid_date \<lparr>date_year = 999, date_month = 12, date_day = 31\<rparr>
   \<and> iso_date \<lparr>date_year = 999, date_month = 12, date_day = 31\<rparr> = ''0999-12-31''"
proof -
  have "str_nat 999 = ''999''"
    by (simp add: str_nat_3 digit_char_def)
  moreover have "zero_pad 2 (str_nat 12) = ''12''" "zero_pad 2 (str_nat 31) = ''31''"
    by (simp_all add: zero_pad_2 digit_char_def)
  ultimately show ?thesis
    by (simp add: roster_day_path strftime_ymd get_unfold replying_def get_request_def
        YAHOO_ENDPOINT_def valid_date_def days_in_month_def iso_date_def digit_char_def
        del: strftime.simps)
qed

text \<open>
  C9. When both a week and a day are given, \<open>get_roster_raw\<close> uses the week and ignores the
  day: the path is \<^verbatim>\<open>team/{team_key}/roster;week={week}\<close>, with no date in it.
\<close>

theorem get_roster_raw_week_and_day:
  "get_roster_raw dumps s team_key (Some w) (Some d)
     = get dumps s (''team/'' @ team_key @ ''/roster;week='' @ str_int w)"
  by (rule roster_week_path)

theorem get_roster_raw_week_and_day_witness:
  "get_roster_raw dumps_fixed (replying \<lparr>status_code = 200, content = [], json = None\<rparr>)
     ''T1'' (Some 3) (Some \<lparr>date_year = 2019, date_month = 4, date_day = 7\<rparr>)
   = get dumps_fixed (replying \<lparr>status_code = 200, content = [], json = None\<rparr>)
       ''team/T1/roster;week=3''"
proof -
  have w: "str_int 3 = ''3''"
    by (simp add: str_int_def str_nat_small digit_char_def)
  from get_roster_raw_week_and_day [of dumps_fixed
      "replying \<lparr>status_code = 200, content = [], json = None\<rparr>"
      "''T1''" 3 "\<lparr>date_year = 2019, date_month = 4, date_day = 7\<rparr>"] w
  show ?thesis by simp
qed

text \<open>
  C5. \<open>get_players_raw\<close> requests
  \<^verbatim>\<open>league/{id}/players;start={n};count=25;status={s};position={p}/percent_owned\<close>, always
  with \<^verbatim>\<open>;count=25\<close>, and leaves the \<^verbatim>\<open>;position={p}\<close> segment out exactly when the
  position is \<^verbatim>\<open>None\<close>.
\<close>

theorem get_players_raw_path:
  "get_players_raw dumps s league_id start status None
     = get dumps s (''league/'' @ league_id @ ''/players;start='' @ str_int start
         @ '';count=25;status='' @ status @ ''/percent_owned'')
   \<and> get_players_raw dumps s league_id start status (Some p)
     = get dumps s (''league/'' @ league_id @ ''/players;start='' @ str_int start
         @ '';count=25;status='' @ status @ '';position='' @ p @ ''/percent_owned'')"
  by (simp add: players_path)

theorem get_players_raw_path_witness:
  "get_players_raw dumps_fixed (replying \<lparr>status_code = 200, content = [], json = None\<rparr>)
     ''398.l.1'' 25 ''FA'' (Some ''C'')
   = get dumps_fixed (replying \<lparr>status_code = 200, content = [], json = None\<rparr>)
       ''league/398.l.1/players;start=25;count=25;status=FA;position=C/percent_owned''"
proof -
  have w: "str_int 25 = ''25''"
    by (simp add: str_int_def str_nat_step str_nat_small digit_char_def)
  from get_players_raw_path [of dumps_fixed
      "replying \<lparr>status_code = 200, content = [], json = None\<rparr>"
      "''398.l.1''" 25 "''FA''" "''C''"] w
  show ?thesis by simp
qed

text \<open>
  C10. \<open>get_player_raw\<close> with no player name requests \<^verbatim>\<open>league/{league_id}/\<close>, a trailing
  slash and nothing after it; with a player name it requests
  \<^verbatim>\<open>league/{league_id}/players;search={player_name}/stats\<close>.
\<close>

theorem get_player_raw_path:
  "get_player_raw dumps s league_id None = get dumps s (''league/'' @ league_id @ ''/'')
   \<and> get_player_raw dumps s league_id (Some player_name)
     = get dumps s (''league/'' @ league_id @ ''/players;search='' @ player_name @ ''/stats'')"
  by (simp add: player_path)

theorem get_player_raw_path_witness:
  "get_player_raw dumps_fixed (replying \<lparr>status_code = 200, content = [], json = None\<rparr>)
     ''398.l.1'' None
   = get dumps_fixed (replying \<lparr>status_code = 200, content = [], json = None\<rparr>) ''league/398.l.1/''"
  using get_player_raw_path [of dumps_fixed
      "replying \<lparr>status_code = 200, content = [], json = None\<rparr>" "''398.l.1''" "''x''"]
  by simp

text \<open>
  C3 (as amended). For every league id that contains a \<^verbatim>\<open>.\<close> and every list of player
  ids, \<open>get_percent_owned_raw\<close> takes the part of the league id before its first \<^verbatim>\<open>.\<close> as
  the prefix, builds each key as \<^verbatim>\<open>{prefix}.p.{id}\<close>, joins the keys with commas and
  requests \<^verbatim>\<open>league/{league_id}/players;player_keys={joined}/percent_owned\<close>.
\<close>

theorem get_percent_owned_raw_path:
  assumes "CHR ''.'' \<in> set league_id"
  shows "get_percent_owned_raw dumps s league_id player_ids
     = get dumps s (''league/'' @ league_id @ ''/players;player_keys=''
         @ join '','' (map (\<lambda>i. prefix_before_dot league_id @ ''.p.'' @ py_str i) player_ids)
         @ ''/percent_owned'')"
  using assms by (simp add: percent_owned_path lg_pref_dot)

theorem get_percent_owned_raw_path_witness:
  "CHR ''.'' \<in> set ''398.l.1''
   \<and> get_percent_owned_raw dumps_fixed
        (replying \<lparr>status_code = 200, content = [], json = None\<rparr>)
        ''398.l.1'' [PStr ''7'', PStr ''8'']
     = get dumps_fixed (replying \<lparr>status_code = 200, content = [], json = None\<rparr>)
         ''league/398.l.1/players;player_keys=398.p.7,398.p.8/percent_owned''"
proof -
  have h: "CHR ''.'' \<in> set ''398.l.1''" by simp
  from get_percent_owned_raw_path [OF h, of dumps_fixed
      "replying \<lparr>status_code = 200, content = [], json = None\<rparr>" "[PStr ''7'', PStr ''8'']"] h
  show ?thesis by (simp add: prefix_before_dot_def)
qed

text \<open>
  C3 as stated fails for a league id without a \<^verbatim>\<open>.\<close>: \<^verbatim>\<open>find\<close> returns \<open>-1\<close> and the
  slice drops the last character, so for \<^verbatim>\<open>nba\<close> the key is built from \<^verbatim>\<open>nb\<close>.
\<close>

theorem get_percent_owned_raw_counterexample:
  "map url (sent (snd (get_percent_owned_raw dumps_fixed
        (replying \<lparr>status_code = 200, content = [], json = None\<rparr>) ''nba'' [PStr ''7''])))
     = [''https://fantasysports.yahooapis.com/fantasy/v2/league/nba/players;player_keys=nb.p.7/percent_owned'']
   \<and> prefix_before_dot ''nba'' = ''nba''"
  by (simp add: percent_owned_path lg_pref_no_dot get_unfold replying_def get_request_def
      YAHOO_ENDPOINT_def prefix_before_dot_def)

section \<open>Failures\<close>

text \<open>
  C7 (as amended). Across all operations, for a session that answers the request: exactly one
  request is sent, with the verb of the operation, and the outcome is decided by the reply
  alone. Every non-success condition the handler checks raises the same RuntimeError and is
  classified no further: a GET reply in which \<^verbatim>\<open>"error" in jresp\<close> holds raises it with the
  serialised JSON, a PUT reply whose status is not 200 and a POST reply whose status is not
  201 raise it with the raw body; in every other case of these the call returns the parsed
  JSON or the reply. Two more kinds of failure reach the caller from a GET: the decoder's
  exception when the body does not decode as JSON, and a TypeError when it decodes to null, a
  boolean or a number.
\<close>

theorem call_result:
  "\<exists>rq. sent (snd (call dumps s opn)) = sent s @ [rq]
     \<and> http_method rq = verb opn
     \<and> fst (call dumps s opn) =
         (case verb opn of
            GET \<Rightarrow>
              (case json (reply s (sent s) rq) of
                 None \<Rightarrow> Inl JSONDecodeError
               | Some j \<Rightarrow>
                   (case j of
                      JNull \<Rightarrow> Inl TypeError
                    | JBool b \<Rightarrow> Inl TypeError
                    | JInt i \<Rightarrow> Inl TypeError
                    | JFloat f \<Rightarrow> Inl TypeError
                    | _ \<Rightarrow>
                        if py_in ''error'' j = Inr True
                        then Inl (RuntimeError (Text (dumps j)))
                        else Inr (Json j)))
          | PUT \<Rightarrow>
              if status_code (reply s (sent s) rq) = 200
              then Inr (Response (reply s (sent s) rq))
              else Inl (RuntimeError (Bytes (content (reply s (sent s) rq))))
          | POST \<Rightarrow>
              if status_code (reply s (sent s) rq) = 201
              then Inr (Response (reply s (sent s) rq))
              else Inl (RuntimeError (Bytes (content (reply s (sent s) rq)))))"
proof (cases "verb opn")
  case GET
  from call_get [OF this] obtain uri where c: "call dumps s opn = as_json (get dumps s uri)"
    by blast
  have "http_method (get_request uri) = GET"
    by (simp add: get_request_def)
  moreover have "sent (snd (as_json (get dumps s uri))) = sent s @ [get_request uri]"
    by (simp add: as_json_def get_unfold)
  moreover have "fst (as_json (get dumps s uri)) =
      (case json (reply s (sent s) (get_request uri)) of
         None \<Rightarrow> Inl JSONDecodeError
       | Some j \<Rightarrow>
           (case j of
              JNull \<Rightarrow> Inl TypeError
            | JBool b \<Rightarrow> Inl TypeError
            | JInt i \<Rightarrow> Inl TypeError
            | JFloat f \<Rightarrow> Inl TypeError
            | _ \<Rightarrow>
                if py_in ''error'' j = Inr True
                then Inl (RuntimeError (Text (dumps j)))
                else Inr (Json j)))"
    by (simp add: get_result split: option.split jvalue.split)
  ultimately show ?thesis
    using GET c by (intro exI [of _ "get_request uri"]) simp
next
  case PUT
  from call_put [OF this] obtain uri d where c: "call dumps s opn = as_response (put s uri d)"
    by blast
  with PUT show ?thesis
    by (intro exI [of _ "put_request uri d"])
      (simp add: as_response_def put_unfold, simp add: put_request_def)
next
  case POST
  from call_post [OF this] obtain uri d where c: "call dumps s opn = as_response (post s uri d)"
    by blast
  with POST show ?thesis
    by (intro exI [of _ "post_request uri d"])
      (simp add: as_response_def post_unfold, simp add: post_request_def)
qed

theorem call_result_witness:
  "fst (call dumps_fixed
          (replying \<lparr>status_code = 200, content = ''{\"error\": {}}'',
                     json = Some (JObject [(''error'', JObject [])])\<rparr>)
          (Get_standings_raw ''398.l.1''))
     = Inl (RuntimeError (Text ''<json>''))
   \<and> fst (call dumps_fixed
          (replying \<lparr>status_code = 200, content = ''{}'', json = Some (JObject [])\<rparr>)
          (Get_standings_raw ''398.l.1''))
     = Inr (Json (JObject []))
   \<and> fst (call dumps_fixed
          (replying \<lparr>status_code = 200, content = ''<html>'', json = None\<rparr>)
          (Get_teams_raw))
     = Inl JSONDecodeError
   \<and> fst (call dumps_fixed
          (replying \<lparr>status_code = 404, content = ''Not Found'', json = None\<rparr>)
          (Put_roster ''T1'' ''<x/>''))
     = Inl (RuntimeError (Bytes ''Not Found''))
   \<and> fst (call dumps_fixed
          (replying \<lparr>status_code = 200, content = ''<ok/>'', json = None\<rparr>)
          (Post_transactions ''398.l.1'' ''<x/>''))
     = Inl (RuntimeError (Bytes ''<ok/>''))"
  using
    call_result [of dumps_fixed
      "replying \<lparr>status_code = 200, content = ''{\"error\": {}}'',
                 json = Some (JObject [(''error'', JObject [])])\<rparr>"
      "Get_standings_raw ''398.l.1''"]
    call_result [of dumps_fixed
      "replying \<lparr>status_code = 200, content = ''{}'', json = Some (JObject [])\<rparr>"
      "Get_standings_raw ''398.l.1''"]
    call_result [of dumps_fixed
      "replying \<lparr>status_code = 200, content = ''<html>'', json = None\<rparr>" Get_teams_raw]
    call_result [of dumps_fixed
      "replying \<lparr>status_code = 404, content = ''Not Found'', json = None\<rparr>"
      "Put_roster ''T1'' ''<x/>''"]
    call_result [of dumps_fixed
      "replying \<lparr>status_code = 200, content = ''<ok/>'', json = None\<rparr>"
      "Post_transactions ''398.l.1'' ''<x/>''"]
  by (auto simp add: replying_def dumps_fixed_def)

text \<open>
  C7 as stated fails: a GET reply whose body is the JSON document \<^verbatim>\<open>null\<close> makes
  \<^verbatim>\<open>"error" in jresp\<close> raise a TypeError, which is not the RuntimeError.
\<close>

theorem call_failure_counterexample:
  "fst (call dumps_fixed
          (replying \<lparr>status_code = 200, content = ''null'', json = Some JNull\<rparr>)
          (Get_standings_raw ''398.l.1''))
     = Inl TypeError"
  by (simp add: get_standings_raw_path as_json_def get_unfold replying_def)

end
